theory Spec2Isabelle
  imports Main "HOL-Library.Word"
begin

section \<open>JavaScript values used by the semantic matcher\<close>

text \<open>
  A JavaScript string is a sequence of UTF-16 code units; \<open>length\<close> counts code units.
  String literals of the source are written with \<open>js\<close>, which maps each ASCII character
  to its code unit.
\<close>

type_synonym code_unit = "16 word"
type_synonym jsstring = "code_unit list"

definition js :: "string \<Rightarrow> jsstring" where
  "js s = map of_char s"

text \<open>
  The value \<open>response.json()\<close> resolves to. Numbers are IEEE doubles that none of the
  functions below inspects; the fields of an object are kept in the order of the body.
\<close>

typedecl js_number

datatype json =
    JNull
  | JBool bool
  | JNumber js_number
  | JString jsstring
  | JArray "json list"
  | JObject "(jsstring \<times> json) list"

text \<open>
  Own property of a parsed object: \<open>JSON.parse\<close> lets a later duplicate key override an
  earlier one. \<open>None\<close> stands for \<open>undefined\<close>.
\<close>

fun own_property :: "json \<Rightarrow> jsstring \<Rightarrow> json option" where
  "own_property (JObject fields) key = map_of (rev fields) key"
| "own_property _ key = None"

datatype js_error = NetworkError | HttpError nat | SyntaxError | TypeError

text \<open>\<open>try { body } catch (error) { handler }\<close>\<close>

definition try_catch :: "js_error + 'a \<Rightarrow> (js_error \<Rightarrow> js_error + 'a) \<Rightarrow> js_error + 'a" where
  "try_catch body handler = (case body of Inl error \<Rightarrow> handler error | Inr v \<Rightarrow> Inr v)"

subsection \<open>The backend as seen through \<open>fetch\<close>\<close>

datatype form_value = Text jsstring | Stringified json

record request =
  url :: jsstring
  http_method :: jsstring
  form :: "(jsstring \<times> form_value) list"

text \<open>
  A response carries its status and its body; \<open>json_body\<close> is \<open>None\<close> when the body does
  not parse as JSON, in which case \<open>response.json()\<close> rejects with a SyntaxError.
\<close>

record response =
  status :: nat
  json_body :: "json option"

definition ok :: "response \<Rightarrow> bool" where
  "ok r = (200 \<le> status r \<and> status r \<le> 299)"

text \<open>\<open>fetch\<close> rejects (\<open>Inl\<close>) when no response arrives.\<close>

type_synonym fetch = "request \<Rightarrow> js_error + response"

definition offline :: fetch where
  "offline req = Inl NetworkError"

definition replies :: "response \<Rightarrow> fetch" where
  "replies r req = Inr r"

section \<open>semanticMatcher.js\<close>

text \<open>\<open>String.prototype.split\<close> with a separator of one code unit.\<close>

fun split :: "code_unit \<Rightarrow> jsstring \<Rightarrow> jsstring list" where
  "split sep [] = [[]]"
| "split sep (c # cs) =
     (if c = sep then [] # split sep cs
      else (case split sep cs of
              [] \<Rightarrow> [[c]]
            | word # rest \<Rightarrow> (c # word) # rest))"

definition space :: code_unit where
  "space = 0x20"

text \<open>\<open>query.split(' ').filter(word => word.length > 2)\<close>\<close>

definition fallback_keywords :: "jsstring \<Rightarrow> jsstring list" where
  "fallback_keywords query = filter (\<lambda>word. length word > 2) (split space query)"

subsection \<open>analyzeQuery\<close>

definition analyze_request :: "jsstring \<Rightarrow> jsstring \<Rightarrow> request" where
  "analyze_request baseUrl query =
     \<lparr>url = baseUrl @ js ''/analyze_query/'', http_method = js ''POST'',
      form = [(js ''query'', Text query)]\<rparr>"

text \<open>The body of the \<open>try\<close> block, shared by both POST calls once the request is built.\<close>

definition post_json :: "fetch \<Rightarrow> request \<Rightarrow> js_error + json" where
  "post_json fetch req =
     (case fetch req of
        Inl error \<Rightarrow> Inl error
      | Inr response \<Rightarrow>
          if \<not> ok response then Inl (HttpError (status response))
          else (case json_body response of
                  None \<Rightarrow> Inl SyntaxError
                | Some v \<Rightarrow> Inr v))"

definition analyzeQuery :: "fetch \<Rightarrow> jsstring \<Rightarrow> jsstring \<Rightarrow> js_error + json" where
  "analyzeQuery fetch baseUrl query =
     try_catch (post_json fetch (analyze_request baseUrl query))
       (\<lambda>error. Inr (JObject
          [(js ''original_query'', JString query),
           (js ''keywords'', JArray (map JString (fallback_keywords query))),
           (js ''synonyms'', JArray []),
           (js ''expanded_terms'', JArray []),
           (js ''intent'', JString (js ''general'')),
           (js ''legal_entities'', JArray [])]))"

subsection \<open>semanticSearch\<close>

definition search_request :: "jsstring \<Rightarrow> jsstring \<Rightarrow> json \<Rightarrow> request" where
  "search_request baseUrl query clauses =
     \<lparr>url = baseUrl @ js ''/semantic_search/'', http_method = js ''POST'',
      form = [(js ''query'', Text query), (js ''clauses'', Stringified clauses)]\<rparr>"

definition semanticSearch :: "fetch \<Rightarrow> jsstring \<Rightarrow> jsstring \<Rightarrow> json \<Rightarrow> js_error + json" where
  "semanticSearch fetch baseUrl query clauses =
     try_catch (post_json fetch (search_request baseUrl query clauses))
       (\<lambda>error. Inr (JObject
          [(js ''query'', JString query),
           (js ''matches'', JArray []),
           (js ''segments'', JArray []),
           (js ''query_analysis'', JObject
              [(js ''original_query'', JString query),
               (js ''keywords'', JArray (map JString (fallback_keywords query))),
               (js ''intent'', JString (js ''general''))])]))"

text \<open>
  The backend request fails: \<open>fetch\<close> rejects, the response is not ok, or its body does
  not parse.
\<close>

definition request_fails :: "fetch \<Rightarrow> request \<Rightarrow> bool" where
  "request_fails fetch req =
     (case fetch req of
        Inl error \<Rightarrow> True
      | Inr response \<Rightarrow> \<not> ok response \<or> json_body response = None)"

subsection \<open>isAvailable\<close>

definition health_request :: "jsstring \<Rightarrow> request" where
  "health_request baseUrl = \<lparr>url = baseUrl @ js ''/health/'', http_method = js ''GET'', form = []\<rparr>"

text \<open>
  \<open>data.semantic_matcher\<close>: reading a property of \<open>null\<close> throws a TypeError; an object
  gives its own property; no prototype of the language defines \<open>semantic_matcher\<close>, so
  every other value gives \<open>undefined\<close>.
\<close>

fun semantic_matcher_of :: "json \<Rightarrow> js_error + json option" where
  "semantic_matcher_of JNull = Inl TypeError"
| "semantic_matcher_of data = Inr (own_property data (js ''semantic_matcher''))"

definition isAvailable :: "fetch \<Rightarrow> jsstring \<Rightarrow> js_error + bool" where
  "isAvailable fetch baseUrl =
     try_catch
       (case fetch (health_request baseUrl) of
          Inl error \<Rightarrow> Inl error
        | Inr response \<Rightarrow>
            (case json_body response of
               None \<Rightarrow> Inl SyntaxError
             | Some data \<Rightarrow>
                 (case semantic_matcher_of data of
                    Inl error \<Rightarrow> Inl error
                  | Inr v \<Rightarrow> Inr (v = Some (JString (js ''available''))))))
       (\<lambda>error. Inr False)"

subsection \<open>getConfidenceStyling\<close>

record styling =
  color :: jsstring
  bgColor :: jsstring
  borderColor :: jsstring
  icon :: jsstring
  label :: jsstring

definition high_styling :: styling where
  "high_styling =
     \<lparr>color = js ''text-green-400'', bgColor = js ''bg-green-500/20'',
      borderColor = js ''border-green-500/30'', icon = [0x2713],
      label = js ''High Confidence''\<rparr>"

definition medium_styling :: styling where
  "medium_styling =
     \<lparr>color = js ''text-yellow-400'', bgColor = js ''bg-yellow-500/20'',
      borderColor = js ''border-yellow-500/30'', icon = [0x26A0],
      label = js ''Medium Confidence''\<rparr>"

definition low_styling :: styling where
  "low_styling =
     \<lparr>color = js ''text-orange-400'', bgColor = js ''bg-orange-500/20'',
      borderColor = js ''border-orange-500/30'', icon = js ''?'',
      label = js ''Low Confidence''\<rparr>"

text \<open>The own properties of the object literal \<open>styles\<close>.\<close>

definition styles :: "(jsstring \<times> styling) list" where
  "styles = [(js ''high'', high_styling), (js ''medium'', medium_styling), (js ''low'', low_styling)]"

text \<open>
  An object literal inherits from \<open>Object.prototype\<close>, and \<open>styles[confidence]\<close> is a
  property read that follows the prototype chain. These are the properties that
  ECMAScript puts on \<open>Object.prototype\<close>; each of them is a function, except
  \<open>__proto__\<close>, whose getter gives \<open>Object.prototype\<close> itself.
\<close>

definition object_prototype_keys :: "jsstring list" where
  "object_prototype_keys = map js
     [''constructor'', ''hasOwnProperty'', ''isPrototypeOf'', ''propertyIsEnumerable'',
      ''toLocaleString'', ''toString'', ''valueOf'', ''__proto__'',
      ''__defineGetter__'', ''__defineSetter__'', ''__lookupGetter__'', ''__lookupSetter__'']"

datatype js_value = Styling styling | Inherited jsstring | Undefined

text \<open>The argument may be \<open>undefined\<close> (\<open>None\<close>); as a property key it is the string "undefined".\<close>

fun property_key :: "jsstring option \<Rightarrow> jsstring" where
  "property_key None = js ''undefined''"
| "property_key (Some s) = s"

definition styles_at :: "jsstring \<Rightarrow> js_value" where
  "styles_at key =
     (case map_of styles key of
        Some s \<Rightarrow> Styling s
      | None \<Rightarrow> if key \<in> set object_prototype_keys then Inherited key else Undefined)"

fun truthy :: "js_value \<Rightarrow> bool" where
  "truthy Undefined = False"
| "truthy (Styling s) = True"
| "truthy (Inherited key) = True"

definition getConfidenceStyling :: "jsstring option \<Rightarrow> js_value" where
  "getConfidenceStyling confidence =
     (let v = styles_at (property_key confidence)
      in if truthy v then v else Styling low_styling)"

subsection \<open>generateSuggestions\<close>

record query_analysis =
  original_query :: jsstring
  "keywords" :: "jsstring list"
  synonyms :: "jsstring list"
  expanded_terms :: "jsstring list"
  intent :: jsstring
  legal_entities :: "jsstring list"

text \<open>\<open>Array.prototype.join\<close> on an array of strings.\<close>

fun join :: "jsstring \<Rightarrow> jsstring list \<Rightarrow> jsstring" where
  "join sep [] = []"
| "join sep [x] = x"
| "join sep (x # y # ys) = x @ sep @ join sep (y # ys)"

definition more_specific :: jsstring where
  "more_specific = js ''Try using more specific keywords''"

definition also_try :: jsstring where
  "also_try = js ''Also try: ''"

definition location_suggestion :: jsstring where
  "location_suggestion = js ''Try searching for specific clause titles or section numbers''"

text \<open>The \<open>switch\<close> on the intent; it has no default case.\<close>

definition intent_suggestions :: "jsstring \<Rightarrow> jsstring list" where
  \<open>intent_suggestions i =
     (if i = js ''location'' then [location_suggestion]
      else if i = js ''explanation'' then [js ''Try asking "What does [specific term] mean?"'']
      else if i = js ''responsibility'' then
        [js ''Try searching for "liability", "responsibility", or "obligation"'']
      else if i = js ''timing'' then
        [js ''Try searching for "deadline", "expiration", or "time period"'']
      else if i = js ''process'' then [js ''Try searching for "procedure", "steps", or "how to"'']
      else [])\<close>

definition generateSuggestions :: "query_analysis \<Rightarrow> jsstring list" where
  "generateSuggestions analysis =
     (let suggestions = [];
          suggestions = (if length (keywords analysis) < 3
                         then suggestions @ [more_specific] else suggestions);
          suggestions = (if length (synonyms analysis) > 0
                         then suggestions @ [also_try @ join (js '', '') (take 3 (synonyms analysis))]
                         else suggestions);
          suggestions = suggestions @ intent_suggestions (intent analysis)
      in take 3 suggestions)"

section \<open>ClauseLocationStep: the query analysis effect\<close>

text \<open>
  The component state the effect depends on, the pending timeout with the query and
  clauses its callback has captured, the callbacks that have called \<open>analyzeQuery\<close> and
  await its result, and the log of the calls made to the matcher.
\<close>

datatype call = AnalyzeQuery jsstring | SemanticSearch jsstring "json list"

fun call_query :: "call \<Rightarrow> jsstring" where
  "call_query (AnalyzeQuery q) = q"
| "call_query (SemanticSearch q cs) = q"

record component =
  highlightingQuery :: jsstring
  clauses :: "json list"
  timer :: "(jsstring \<times> json list) option"
  awaiting :: "(jsstring \<times> json list) list"
  issued :: "call list"

text \<open>
  The effect body: an empty string is falsy, so the callback is scheduled only for a
  query that is non-empty and longer than 3.
\<close>

definition analysis_effect :: "component \<Rightarrow> component" where
  "analysis_effect c =
     (if highlightingQuery c \<noteq> [] \<and> length (highlightingQuery c) > 3
      then c\<lparr>timer := Some (highlightingQuery c, clauses c)\<rparr>
      else c)"

text \<open>The cleanup the effect returns: \<open>clearTimeout(timeoutId)\<close>.\<close>

definition cleanup :: "component \<Rightarrow> component" where
  "cleanup c = c\<lparr>timer := None\<rparr>"

definition mount :: "jsstring \<Rightarrow> json list \<Rightarrow> component" where
  "mount query cs =
     analysis_effect
       \<lparr>highlightingQuery = query, clauses = cs, timer = None, awaiting = [], issued = []\<rparr>"

text \<open>
  What can happen to a mounted component: the query state is set (input change or a
  suggestion button), the wizard supplies a new clause array, the timeout fires and its
  callback calls \<open>analyzeQuery\<close>, and the \<open>i\<close>-th awaited analysis settles, after which
  the callback calls \<open>semanticSearch\<close> if it captured a non-empty clause array.
\<close>

datatype event =
    SetHighlightingQuery jsstring
  | SetClauses "json list"
  | TimeoutFires
  | AnalysisSettles nat

fun step :: "component \<Rightarrow> event \<Rightarrow> component" where
  "step c (SetHighlightingQuery q) =
     (if q = highlightingQuery c then c
      else analysis_effect (cleanup (c\<lparr>highlightingQuery := q\<rparr>)))"
| "step c (SetClauses cs) = analysis_effect (cleanup (c\<lparr>clauses := cs\<rparr>))"
| "step c TimeoutFires =
     (case timer c of
        None \<Rightarrow> c
      | Some (q, cs) \<Rightarrow>
          c\<lparr>timer := None, awaiting := awaiting c @ [(q, cs)],
            issued := issued c @ [AnalyzeQuery q]\<rparr>)"
| "step c (AnalysisSettles i) =
     (if i < length (awaiting c)
      then (let (q, cs) = awaiting c ! i
            in c\<lparr>awaiting := take i (awaiting c) @ drop (Suc i) (awaiting c),
                 issued := issued c @ (if cs \<noteq> [] then [SemanticSearch q cs] else [])\<rparr>)
      else c)"

definition run :: "component \<Rightarrow> event list \<Rightarrow> component" where
  "run c evs = foldl step c evs"

section \<open>The specification's vocabulary\<close>

text \<open>
  White space as ECMAScript defines it (the WhiteSpace and LineTerminator code points,
  what \<open>String.prototype.trim\<close> removes).
\<close>

definition is_whitespace :: "code_unit \<Rightarrow> bool" where
  "is_whitespace c =
     (c \<in> set [0x9, 0xA, 0xB, 0xC, 0xD, 0x20, 0xA0, 0x1680, 0x2000, 0x2001, 0x2002, 0x2003,
                0x2004, 0x2005, 0x2006, 0x2007, 0x2008, 0x2009, 0x200A, 0x2028, 0x2029,
                0x202F, 0x205F, 0x3000, 0xFEFF])"

definition whitespace_only :: "jsstring \<Rightarrow> bool" where
  "whitespace_only query = list_all is_whitespace query"

text \<open>
  The whitespace-separated tokens of a string, as the specification words it: the
  maximal runs of code units that are not white space.
\<close>

fun spec_split_whitespace :: "jsstring \<Rightarrow> jsstring list" where
  "spec_split_whitespace [] = [[]]"
| "spec_split_whitespace (c # cs) =
     (if is_whitespace c then [] # spec_split_whitespace cs
      else (case spec_split_whitespace cs of
              [] \<Rightarrow> [[c]]
            | word # rest \<Rightarrow> (c # word) # rest))"

definition spec_whitespace_tokens :: "jsstring \<Rightarrow> jsstring list" where
  "spec_whitespace_tokens query = filter (\<lambda>word. word \<noteq> []) (spec_split_whitespace query)"

section \<open>Invariant of the analysis effect\<close>

text \<open>
  Every query a callback has captured, whether its timeout is pending or its analysis is
  awaited, and every query already passed to the matcher, is longer than 3.
\<close>

definition long_enough :: "jsstring \<times> json list \<Rightarrow> bool" where
  "long_enough captured = (length (fst captured) > 3)"

definition only_long_queries :: "component \<Rightarrow> bool" where
  "only_long_queries c =
     ((case timer c of None \<Rightarrow> True | Some captured \<Rightarrow> long_enough captured)
      \<and> list_all long_enough (awaiting c)
      \<and> list_all (\<lambda>call. length (call_query call) > 3) (issued c))"

section \<open>Degraded results of analyzeQuery and semanticSearch\<close>

lemma request_fails_post_json:
  "request_fails fetch req \<Longrightarrow> \<exists>error. post_json fetch req = Inl error"
  by (auto simp: request_fails_def post_json_def split: sum.splits option.splits)

lemma request_fails_offline: "request_fails offline req"
  by (simp add: request_fails_def offline_def)

lemma split_only_separators:
  "list_all (\<lambda>c. c = sep) q \<Longrightarrow> set (split sep q) \<subseteq> {[]}"
  by (induction q) auto

lemma fallback_keywords_spaces:
  assumes "list_all (\<lambda>c. c = space) q"
  shows "fallback_keywords q = []"
proof -
  have "set (split space q) \<subseteq> {[]}"
    using assms by (rule split_only_separators)
  then have "\<forall>word \<in> set (split space q). \<not> length word > 2"
    by auto
  then show ?thesis
    unfolding fallback_keywords_def by (simp add: filter_empty_conv)
qed

lemma fallback_keywords_tokens:
  "k \<in> set (fallback_keywords q) \<Longrightarrow> 3 \<le> length k \<and> k \<in> set (split space q)"
  by (auto simp: fallback_keywords_def)

lemma analyzeQuery_degraded:
  assumes "request_fails fetch (analyze_request baseUrl query)"
  shows "analyzeQuery fetch baseUrl query = Inr (JObject
          [(js ''original_query'', JString query),
           (js ''keywords'', JArray (map JString (fallback_keywords query))),
           (js ''synonyms'', JArray []),
           (js ''expanded_terms'', JArray []),
           (js ''intent'', JString (js ''general'')),
           (js ''legal_entities'', JArray [])])"
proof -
  from assms obtain error where "post_json fetch (analyze_request baseUrl query) = Inl error"
    using request_fails_post_json by blast
  then show ?thesis
    by (simp add: analyzeQuery_def try_catch_def)
qed

text \<open>
  C1. Whatever the query and the clauses, when the backend request fails (\<open>fetch\<close>
  rejects, the response is not ok, or its body does not parse), \<open>semanticSearch\<close>
  returns normally, and the object it returns has an empty \<open>matches\<close> array, an empty
  \<open>segments\<close> array and a \<open>query_analysis\<close> whose \<open>original_query\<close> is the query.
\<close>

theorem semanticSearch_failure_empty_result:
  assumes "request_fails fetch (search_request baseUrl query cs)"
  shows "\<exists>result analysis.
           semanticSearch fetch baseUrl query cs = Inr result
         \<and> own_property result (js ''matches'') = Some (JArray [])
         \<and> own_property result (js ''segments'') = Some (JArray [])
         \<and> own_property result (js ''query_analysis'') = Some analysis
         \<and> own_property analysis (js ''original_query'') = Some (JString query)"
proof -
  from assms obtain error where "post_json fetch (search_request baseUrl query cs) = Inl error"
    using request_fails_post_json by blast
  then show ?thesis
    by (simp add: semanticSearch_def try_catch_def js_def)
qed

text \<open>The same at a response with status 500, for the query "who has custody".\<close>

theorem semanticSearch_failure_empty_result_witness:
  "request_fails (replies \<lparr>status = 500, json_body = None\<rparr>)
     (search_request (js ''http://localhost:8000'') (js ''who has custody'') (JArray []))
   \<and> (\<exists>result analysis.
         semanticSearch (replies \<lparr>status = 500, json_body = None\<rparr>)
           (js ''http://localhost:8000'') (js ''who has custody'') (JArray []) = Inr result
       \<and> own_property result (js ''matches'') = Some (JArray [])
       \<and> own_property result (js ''segments'') = Some (JArray [])
       \<and> own_property result (js ''query_analysis'') = Some analysis
       \<and> own_property analysis (js ''original_query'') = Some (JString (js ''who has custody'')))"
proof -
  have fails: "request_fails (replies \<lparr>status = 500, json_body = None\<rparr>)
     (search_request (js ''http://localhost:8000'') (js ''who has custody'') (JArray []))"
    by (simp add: request_fails_def replies_def ok_def)
  show ?thesis
    using fails semanticSearch_failure_empty_result [OF fails] by simp
qed

text \<open>
  C2, as amended. For every query that is empty or consists only of space characters
  (U+0020), the analysis \<open>analyzeQuery\<close> returns when the backend call fails has an empty
  \<open>keywords\<close> array, an empty \<open>synonyms\<close> array and the intent "general", and no error
  is raised.
\<close>

theorem analyzeQuery_spaces_only:
  assumes "list_all (\<lambda>c. c = space) query"
    and "request_fails fetch (analyze_request baseUrl query)"
  shows "\<exists>analysis.
           analyzeQuery fetch baseUrl query = Inr analysis
         \<and> own_property analysis (js ''keywords'') = Some (JArray [])
         \<and> own_property analysis (js ''synonyms'') = Some (JArray [])
         \<and> own_property analysis (js ''intent'') = Some (JString (js ''general''))"
  using analyzeQuery_degraded [OF assms(2)] fallback_keywords_spaces [OF assms(1)]
  by (simp add: js_def)

text \<open>The same for a query of three spaces, with the backend unreachable.\<close>

theorem analyzeQuery_spaces_only_witness:
  "list_all (\<lambda>c. c = space) (js ''   '')
   \<and> request_fails offline (analyze_request (js ''http://localhost:8000'') (js ''   ''))
   \<and> (\<exists>analysis.
         analyzeQuery offline (js ''http://localhost:8000'') (js ''   '') = Inr analysis
       \<and> own_property analysis (js ''keywords'') = Some (JArray [])
       \<and> own_property analysis (js ''synonyms'') = Some (JArray [])
       \<and> own_property analysis (js ''intent'') = Some (JString (js ''general'')))"
proof -
  have spaces: "list_all (\<lambda>c. c = space) (js ''   '')"
    by (simp add: js_def space_def)
  show ?thesis
    using spaces request_fails_offline analyzeQuery_spaces_only [OF spaces request_fails_offline]
    by blast
qed

text \<open>
  As stated, for every whitespace-only query, the claim fails: a tab (U+0009) is white
  space but not a separator of \<open>split(' ')\<close>, so a query of three tabs is one token of
  length 3 and becomes a keyword.
\<close>

theorem analyzeQuery_tabs_counterexample:
  "whitespace_only [0x9, 0x9, 0x9]
   \<and> request_fails offline (analyze_request (js ''http://localhost:8000'') [0x9, 0x9, 0x9])
   \<and> analyzeQuery offline (js ''http://localhost:8000'') [0x9, 0x9, 0x9] = Inr (JObject
          [(js ''original_query'', JString [0x9, 0x9, 0x9]),
           (js ''keywords'', JArray [JString [0x9, 0x9, 0x9]]),
           (js ''synonyms'', JArray []),
           (js ''expanded_terms'', JArray []),
           (js ''intent'', JString (js ''general'')),
           (js ''legal_entities'', JArray [])])"
  by (simp add: whitespace_only_def is_whitespace_def request_fails_def offline_def
      analyzeQuery_def try_catch_def post_json_def fallback_keywords_def space_def)

text \<open>
  C3, as amended. For every query (the non-empty ones included), the analysis
  \<open>analyzeQuery\<close> returns when the backend call fails is not null, and its \<open>keywords\<close>
  array holds only strings of length at least 3 that occur, unchanged, among the pieces
  of the query separated by the space character U+0020.
\<close>

theorem analyzeQuery_degraded_keywords:
  assumes "request_fails fetch (analyze_request baseUrl query)"
  shows "\<exists>analysis ks.
           analyzeQuery fetch baseUrl query = Inr analysis
         \<and> analysis \<noteq> JNull
         \<and> own_property analysis (js ''keywords'') = Some (JArray (map JString ks))
         \<and> (\<forall>k \<in> set ks. 3 \<le> length k \<and> k \<in> set (split space query))"
  using analyzeQuery_degraded [OF assms] fallback_keywords_tokens
  by (auto simp: js_def)

text \<open>The same for the query "who has custody", with the backend unreachable.\<close>

theorem analyzeQuery_degraded_keywords_witness:
  "request_fails offline (analyze_request (js ''http://localhost:8000'') (js ''who has custody''))
   \<and> (\<exists>analysis ks.
         analyzeQuery offline (js ''http://localhost:8000'') (js ''who has custody'') = Inr analysis
       \<and> analysis \<noteq> JNull
       \<and> own_property analysis (js ''keywords'') = Some (JArray (map JString ks))
       \<and> (\<forall>k \<in> set ks. 3 \<le> length k \<and> k \<in> set (split space (js ''who has custody''))))"
  using request_fails_offline analyzeQuery_degraded_keywords [OF request_fails_offline]
  by blast

text \<open>
  As stated, with whitespace-separated tokens, the claim fails: in the query made of
  "a", a tab and "bcd", the whitespace-separated tokens are "a" and "bcd", and the only
  keyword is the whole query.
\<close>

theorem analyzeQuery_tab_token_counterexample:
  "[0x61, 0x9, 0x62, 0x63, 0x64] \<noteq> ([] :: jsstring)
   \<and> request_fails offline
        (analyze_request (js ''http://localhost:8000'') [0x61, 0x9, 0x62, 0x63, 0x64])
   \<and> analyzeQuery offline (js ''http://localhost:8000'') [0x61, 0x9, 0x62, 0x63, 0x64] =
        Inr (JObject
          [(js ''original_query'', JString [0x61, 0x9, 0x62, 0x63, 0x64]),
           (js ''keywords'', JArray [JString [0x61, 0x9, 0x62, 0x63, 0x64]]),
           (js ''synonyms'', JArray []),
           (js ''expanded_terms'', JArray []),
           (js ''intent'', JString (js ''general'')),
           (js ''legal_entities'', JArray [])])
   \<and> spec_whitespace_tokens [0x61, 0x9, 0x62, 0x63, 0x64] = [[0x61], [0x62, 0x63, 0x64]]
   \<and> [0x61, 0x9, 0x62, 0x63, 0x64] \<notin> set (spec_whitespace_tokens [0x61, 0x9, 0x62, 0x63, 0x64])"
  by (simp add: request_fails_def offline_def
      analyzeQuery_def try_catch_def post_json_def fallback_keywords_def space_def
      spec_whitespace_tokens_def is_whitespace_def)

section \<open>Suggestions\<close>

lemma more_specific_not_intent: "more_specific \<notin> set (intent_suggestions i)"
  by (simp add: intent_suggestions_def more_specific_def location_suggestion_def js_def)

lemma more_specific_not_also_try:
  "also_try @ rest \<noteq> more_specific" "more_specific \<noteq> also_try @ rest"
  by (simp_all add: also_try_def more_specific_def js_def)

lemma length_intent_suggestions: "length (intent_suggestions i) \<le> 1"
  by (simp add: intent_suggestions_def)

lemma also_try_not_intent:
  "s \<in> set (intent_suggestions i) \<Longrightarrow> take (length also_try) s \<noteq> also_try"
  by (auto simp: intent_suggestions_def also_try_def location_suggestion_def js_def
      split: if_splits)

lemma also_try_not_more_specific: "take (length also_try) more_specific \<noteq> also_try"
  by (simp add: also_try_def more_specific_def js_def)

text \<open>The final \<open>slice(0, 3)\<close> cuts nothing off: at most three suggestions are pushed.\<close>

lemma generateSuggestions_unsliced:
  "generateSuggestions a =
     (if length (keywords a) < 3 then [more_specific] else [])
     @ (if synonyms a \<noteq> [] then [also_try @ join (js '', '') (take 3 (synonyms a))] else [])
     @ intent_suggestions (intent a)"
  using length_intent_suggestions [of "intent a"]
  by (simp add: generateSuggestions_def Let_def)

text \<open>
  C4. For every analysis, whatever its keywords, synonyms and intent,
  \<open>generateSuggestions\<close> returns at most 3 suggestions.
\<close>

theorem generateSuggestions_at_most_three: "length (generateSuggestions analysis) \<le> 3"
  by (simp add: generateSuggestions_def Let_def)

text \<open>
  C5. For every analysis, the suggestion "Try using more specific keywords" is among
  the suggestions returned if and only if the analysis has fewer than 3 keywords.
\<close>

theorem generateSuggestions_more_specific_iff:
  "more_specific \<in> set (generateSuggestions analysis) \<longleftrightarrow> length (keywords analysis) < 3"
  using more_specific_not_intent [of "intent analysis"] more_specific_not_also_try
  by (auto simp: generateSuggestions_unsliced)

text \<open>
  C6. For every analysis whose intent is "location", whatever its keywords and synonyms,
  the suggestion "Try searching for specific clause titles or section numbers" is among
  the suggestions returned.
\<close>

theorem generateSuggestions_location:
  assumes "intent analysis = js ''location''"
  shows "location_suggestion \<in> set (generateSuggestions analysis)"
  using assms by (simp add: generateSuggestions_unsliced intent_suggestions_def)

text \<open>
  The same for an analysis with one keyword and four synonyms, where both other
  suggestions are pushed before the one for the intent.
\<close>

theorem generateSuggestions_location_witness:
  "intent \<lparr>original_query = js ''where is it'', keywords = [js ''where''],
           synonyms = [js ''locate'', js ''find'', js ''position'', js ''place''],
           expanded_terms = [], intent = js ''location'', legal_entities = []\<rparr> = js ''location''
   \<and> location_suggestion \<in> set (generateSuggestions
         \<lparr>original_query = js ''where is it'', keywords = [js ''where''],
           synonyms = [js ''locate'', js ''find'', js ''position'', js ''place''],
           expanded_terms = [], intent = js ''location'', legal_entities = []\<rparr>)"
  using generateSuggestions_location [of
         "\<lparr>original_query = js ''where is it'', keywords = [js ''where''],
           synonyms = [js ''locate'', js ''find'', js ''position'', js ''place''],
           expanded_terms = [], intent = js ''location'', legal_entities = []\<rparr>"]
  by simp

text \<open>
  C9. For every analysis, a suggestion that starts with "Also try: " is among the
  suggestions returned if and only if the analysis has at least one synonym, and any
  such suggestion is "Also try: " followed by the first 3 synonyms (all of them when
  there are fewer), in their order, joined by ", ".
\<close>

theorem generateSuggestions_synonyms:
  "(list_ex (\<lambda>s. take (length also_try) s = also_try) (generateSuggestions analysis)
      \<longleftrightarrow> synonyms analysis \<noteq> [])
   \<and> (\<forall>s \<in> set (generateSuggestions analysis).
        take (length also_try) s = also_try \<longrightarrow>
        s = also_try @ join (js '', '') (take 3 (synonyms analysis)))"
  using also_try_not_intent [of _ "intent analysis"] also_try_not_more_specific
  by (auto simp: generateSuggestions_unsliced list_ex_iff)

text \<open>The same for an analysis with four synonyms: the fourth is left out.\<close>

theorem generateSuggestions_synonyms_witness:
  "generateSuggestions
         \<lparr>original_query = js ''where is it'', keywords = [js ''where''],
           synonyms = [js ''locate'', js ''find'', js ''position'', js ''place''],
           expanded_terms = [], intent = js ''location'', legal_entities = []\<rparr>
     = [more_specific, js ''Also try: locate, find, position'', location_suggestion]
   \<and> list_ex (\<lambda>s. take (length also_try) s = also_try) (generateSuggestions
         \<lparr>original_query = js ''where is it'', keywords = [js ''where''],
           synonyms = [js ''locate'', js ''find'', js ''position'', js ''place''],
           expanded_terms = [], intent = js ''location'', legal_entities = []\<rparr>)"
proof -
  let ?a = "\<lparr>original_query = js ''where is it'', keywords = [js ''where''],
           synonyms = [js ''locate'', js ''find'', js ''position'', js ''place''],
           expanded_terms = [], intent = js ''location'', legal_entities = []\<rparr>"
  have ev: "generateSuggestions ?a
      = [more_specific, js ''Also try: locate, find, position'', location_suggestion]"
    by (simp add: generateSuggestions_def intent_suggestions_def also_try_def js_def)
  have "list_ex (\<lambda>s. take (length also_try) s = also_try) (generateSuggestions ?a)"
    using generateSuggestions_synonyms [of ?a] by simp
  with ev show ?thesis by simp
qed

section \<open>Availability probe\<close>

text \<open>
  C7. \<open>isAvailable\<close> always returns a boolean and never throws: it returns true exactly
  when the health request gets a response whose body parses as JSON and whose
  \<open>semantic_matcher\<close> property is the string "available", and false in every other case
  (no response, unparsable body, a body that is \<open>null\<close> or has no such property, or any
  other value of it).
\<close>

theorem isAvailable_iff:
  "isAvailable fetch baseUrl =
     Inr (\<exists>response data.
            fetch (health_request baseUrl) = Inr response
          \<and> json_body response = Some data
          \<and> own_property data (js ''semantic_matcher'') = Some (JString (js ''available'')))"
proof (cases "fetch (health_request baseUrl)")
  case (Inl error)
  then show ?thesis by (simp add: isAvailable_def try_catch_def)
next
  case (Inr response)
  show ?thesis
  proof (cases "json_body response")
    case None
    with Inr show ?thesis by (simp add: isAvailable_def try_catch_def)
  next
    case (Some data)
    with Inr show ?thesis
      by (cases data) (simp_all add: isAvailable_def try_catch_def)
  qed
qed

section \<open>Confidence styling\<close>

text \<open>Each of the three tiers gets its own styling, and the three differ.\<close>

lemma getConfidenceStyling_tiers:
  "getConfidenceStyling (Some (js ''high'')) = Styling high_styling"
  "getConfidenceStyling (Some (js ''medium'')) = Styling medium_styling"
  "getConfidenceStyling (Some (js ''low'')) = Styling low_styling"
  "distinct [high_styling, medium_styling, low_styling]"
  by (simp_all add: getConfidenceStyling_def styles_at_def styles_def js_def
      high_styling_def medium_styling_def low_styling_def)

text \<open>
  A key that is neither a tier nor a property of \<open>Object.prototype\<close> gets the low
  styling; so does \<open>undefined\<close>.
\<close>

lemma getConfidenceStyling_fallback:
  assumes "property_key confidence \<notin> set (map js [''high'', ''medium'', ''low''])"
    and "property_key confidence \<notin> set object_prototype_keys"
  shows "getConfidenceStyling confidence = Styling low_styling"
  using assms
  by (simp add: getConfidenceStyling_def styles_at_def styles_def)

lemma getConfidenceStyling_undefined: "getConfidenceStyling None = Styling low_styling"
  by (simp add: getConfidenceStyling_def styles_at_def styles_def object_prototype_keys_def js_def)

text \<open>
  C8. The claim is that every string other than "high", "medium" and "low" gets the low
  styling. For the string "constructor" the property read \<open>styles[confidence]\<close> finds
  the member that \<open>styles\<close> inherits from \<open>Object.prototype\<close>; it is truthy, so the
  \<open>||\<close> does not fall back and the function returns that member, not a styling.
\<close>

theorem getConfidenceStyling_constructor:
  "getConfidenceStyling (Some (js ''constructor'')) = Inherited (js ''constructor'')
   \<and> getConfidenceStyling (Some (js ''constructor'')) \<noteq> Styling low_styling"
  by (simp add: getConfidenceStyling_def styles_at_def styles_def object_prototype_keys_def js_def)

section \<open>The clause location step calls the matcher with long queries only\<close>

lemma only_long_queries_effect:
  "only_long_queries (cleanup c) \<Longrightarrow> only_long_queries (analysis_effect (cleanup c))"
  by (simp add: only_long_queries_def analysis_effect_def cleanup_def long_enough_def)

lemma only_long_queries_cleanup:
  "only_long_queries c \<Longrightarrow> only_long_queries (cleanup (c\<lparr>highlightingQuery := q\<rparr>))"
  "only_long_queries c \<Longrightarrow> only_long_queries (cleanup (c\<lparr>clauses := cs\<rparr>))"
  by (simp_all add: only_long_queries_def cleanup_def)

lemma only_long_queries_mount: "only_long_queries (mount query cs)"
  by (simp add: only_long_queries_def mount_def analysis_effect_def long_enough_def)

lemma list_all_remove_nth:
  "list_all P xs \<Longrightarrow> list_all P (take i xs @ drop (Suc i) xs)"
  by (auto simp: list_all_iff dest: in_set_takeD in_set_dropD)

lemma only_long_queries_step:
  assumes "only_long_queries c"
  shows "only_long_queries (step c e)"
proof (cases e)
  case (SetHighlightingQuery q)
  then show ?thesis
    using assms only_long_queries_effect only_long_queries_cleanup(1) by simp
next
  case (SetClauses cs)
  then show ?thesis
    using assms only_long_queries_effect only_long_queries_cleanup(2) by simp
next
  case TimeoutFires
  then show ?thesis
    using assms
    by (auto simp: only_long_queries_def long_enough_def split: option.splits)
next
  case (AnalysisSettles i)
  show ?thesis
  proof (cases "i < length (awaiting c)")
    case False
    with AnalysisSettles assms show ?thesis by simp
  next
    case True
    from assms have all: "list_all long_enough (awaiting c)"
      by (simp add: only_long_queries_def)
    with True have "long_enough (awaiting c ! i)"
      by (simp add: list_all_length)
    moreover from all have "list_all long_enough (take i (awaiting c) @ drop (Suc i) (awaiting c))"
      by (rule list_all_remove_nth)
    ultimately show ?thesis
      using AnalysisSettles True assms
      by (auto simp: only_long_queries_def long_enough_def split: prod.splits)
  qed
qed

lemma only_long_queries_run:
  "only_long_queries c \<Longrightarrow> only_long_queries (run c evs)"
  unfolding run_def
  by (induction evs arbitrary: c) (simp_all add: only_long_queries_step)

text \<open>
  C10. Whatever query and clauses the step is mounted with and whatever happens to it
  afterwards, every \<open>analyzeQuery\<close> and \<open>semanticSearch\<close> call it makes has a query
  longer than 3; in particular the matcher is never called with the empty query.
\<close>

theorem clause_location_calls_long_queries:
  "\<forall>call \<in> set (issued (run (mount query cs) evs)).
     length (call_query call) > 3 \<and> call_query call \<noteq> []"
proof -
  have "only_long_queries (run (mount query cs) evs)"
    using only_long_queries_mount by (rule only_long_queries_run)
  then show ?thesis
    by (auto simp: only_long_queries_def list_all_iff)
qed

text \<open>
  A run that makes both calls for "custody", and none for "abc" although its effect ran
  and a timeout event follows.
\<close>

theorem clause_location_calls_long_queries_witness:
  "issued (run (mount (js ''custody'') [JString (js ''clause'')])
             [TimeoutFires, SetHighlightingQuery (js ''abc''), AnalysisSettles 0, TimeoutFires])
     = [AnalyzeQuery (js ''custody''), SemanticSearch (js ''custody'') [JString (js ''clause'')]]
   \<and> list_all (\<lambda>call. length (call_query call) > 3 \<and> call_query call \<noteq> [])
        (issued (run (mount (js ''custody'') [JString (js ''clause'')])
             [TimeoutFires, SetHighlightingQuery (js ''abc''), AnalysisSettles 0, TimeoutFires]))"
proof -
  have ev: "issued (run (mount (js ''custody'') [JString (js ''clause'')])
             [TimeoutFires, SetHighlightingQuery (js ''abc''), AnalysisSettles 0, TimeoutFires])
     = [AnalyzeQuery (js ''custody''), SemanticSearch (js ''custody'') [JString (js ''clause'')]]"
    by (simp add: run_def mount_def analysis_effect_def cleanup_def js_def)
  show ?thesis
    using clause_location_calls_long_queries [of "js ''custody''" "[JString (js ''clause'')]"
        "[TimeoutFires, SetHighlightingQuery (js ''abc''), AnalysisSettles 0, TimeoutFires]"] ev
    by (simp add: list_all_iff)
qed

end
